theory Spec2Isabelle
  imports Main "HOL-Library.Word"
begin

unbundle bit_operations_syntax

section \<open>The local session manager handler\<close>

text \<open>
  A shallow embedding of \<^verbatim>\<open>LocalSessionManagerHandlerImpl\<close> (the C++ file of the
  session manager). Members keep their names without the trailing underscore
  (\<^verbatim>\<open>current_epoch_\<close> is \<open>current_epoch\<close>). Every closure the handler hands to
  the event base, to a timer or to a collaborator becomes a value (\<open>task\<close>, \<open>rpc\<close>) kept
  in the state, and running or completing it is a function of its own, so the
  asynchrony of the source is explicit. \<^verbatim>\<open>MLOG\<close> output is not part of the state.
\<close>

subsection \<open>Status and protobuf messages\<close>

datatype StatusCode =
  OK | CANCELLED | UNKNOWN | INVALID_ARGUMENT | DEADLINE_EXCEEDED | NOT_FOUND
  | FAILED_PRECONDITION | UNAVAILABLE | INTERNAL

record Status =
  error_code :: StatusCode
  error_message :: string

definition Status_OK :: Status where
  "Status_OK = \<lparr>error_code = OK, error_message = []\<rparr>"

definition ok :: "Status \<Rightarrow> bool" where
  "ok status = (error_code status = OK)"

text \<open>
  The message types are declared in protobuf files that are not among the sources; each
  is a record of the fields the handler reads or writes. \<^verbatim>\<open>SubscriberID.id\<close> is
  \<open>sid_id\<close>; the fields of \<^verbatim>\<open>LocalCreateSessionRequest\<close> carry the prefix \<open>req_\<close>
  and those of \<^verbatim>\<open>CreateSessionRequest\<close> the prefix \<open>cs_\<close>, since record fields
  share one name space.
\<close>

record SubscriberID =
  sid_id :: string

datatype RATType = TGPP_LTE | TGPP_WLAN

record QosInformationRequest =
  qos_class_id :: "32 word"

record LocalCreateSessionRequest =
  req_sid :: SubscriberID
  req_ue_ipv4 :: string
  req_spgw_ipv4 :: string
  req_msisdn :: string
  req_apn :: string
  req_imei :: string
  req_plmn_id :: string
  req_imsi_plmn_id :: string
  req_user_location :: string
  req_rat_type :: RATType
  req_hardware_addr :: "8 word list"
  req_radius_session_id :: string
  req_bearer_id :: "32 word"
  req_qos_info :: "QosInformationRequest option"

definition has_qos_info :: "LocalCreateSessionRequest \<Rightarrow> bool" where
  "has_qos_info request = (req_qos_info request \<noteq> None)"

record CreateSessionRequest =
  cs_subscriber :: SubscriberID
  cs_session_id :: string
  cs_ue_ipv4 :: string
  cs_spgw_ipv4 :: string
  cs_apn :: string
  cs_msisdn :: string
  cs_imei :: string
  cs_plmn_id :: string
  cs_imsi_plmn_id :: string
  cs_user_location :: string
  cs_hardware_addr :: "8 word list"
  cs_qos_info :: "QosInformationRequest option"

datatype CreateSessionResponse = CreateSessionResponse "string list"

datatype CreditUsageUpdate = CreditUsageUpdate string nat

datatype UsageMonitorUpdate = UsageMonitorUpdate string nat

record UpdateSessionRequest =
  updates :: "CreditUsageUpdate list"
  usage_monitors :: "UsageMonitorUpdate list"

definition updates_size :: "UpdateSessionRequest \<Rightarrow> nat" where
  "updates_size request = length (updates request)"

definition usage_monitors_size :: "UpdateSessionRequest \<Rightarrow> nat" where
  "usage_monitors_size request = length (usage_monitors request)"

datatype UpdateSessionResponse = UpdateSessionResponse "string list"

record SessionTerminateRequest =
  term_sid :: string
  term_session_id :: string

datatype SetupResult = SUCCESS | FAILURE | OUTDATED_EPOCH

record SetupFlowsResult =
  result :: SetupResult

subsection \<open>Session configuration\<close>

record QoSInfo =
  enabled :: bool
  qci :: "32 word"

record Config =
  ue_ipv4 :: string
  spgw_ipv4 :: string
  msisdn :: string
  apn :: string
  imei :: string
  plmn_id :: string
  imsi_plmn_id :: string
  user_location :: string
  rat_type :: RATType
  mac_addr :: string
  hardware_addr :: "8 word list"
  radius_session_id :: string
  bearer_id :: "32 word"
  qos_info :: QoSInfo

subsection \<open>Formatting the hardware address\<close>

definition hex_digit :: string where
  "hex_digit = ''0123456789abcdef''"

text \<open>
  The body of the \<^verbatim>\<open>for\<close> loop of \<^verbatim>\<open>convert_mac_addr_to_str\<close>, as a function of
  the index \<open>i\<close> and the string built so far (the parameter \<^verbatim>\<open>mac_addr\<close> is \<open>addr\<close> here, \<open>mac_addr\<close>
  being a field of \<open>Config\<close>). A byte is an \<open>8 word\<close>
  (\<^verbatim>\<open>unsigned char c\<close>); \<^verbatim>\<open>c >> 4\<close> is \<open>drop_bit 4 c\<close>. Both indices into
  \<open>hex_digit\<close> are below 16, so the reads are in range. The index is a \<open>nat\<close>: the
  source's \<^verbatim>\<open>int i\<close> does not overflow for an address shorter than \<open>2 ^ 31\<close> bytes.
\<close>

function mac_loop :: "8 word list \<Rightarrow> nat \<Rightarrow> string \<Rightarrow> string" where
  "mac_loop addr i res =
     (if i < length addr then
        (let res1 = (if i > 0 then res @ [CHR '':''] else res);
             c = addr ! i;
             res2 = res1 @ [hex_digit ! unat (drop_bit 4 c)];
             res3 = res2 @ [hex_digit ! unat (c AND 0x0F)]
         in mac_loop addr (i + 1) res3)
      else res)"
  by pat_completeness auto
termination
  by (relation "measure (\<lambda>(addr, i, res). length addr - i)") auto

declare mac_loop.simps [simp del]

definition convert_mac_addr_to_str :: "8 word list \<Rightarrow> string" where
  "convert_mac_addr_to_str addr =
     (let res = []; l = length addr in
      if l = 0 then res else mac_loop addr 0 res)"





subsection \<open>The enforcer and the cloud reporter\<close>

text \<open>
  \<^verbatim>\<open>LocalEnforcer\<close> (the credit engine and the session table) and
  \<^verbatim>\<open>SessionCloudReporter\<close> (the billing collaborator) are classes of the repository
  whose code is not among the sources; the handler only calls them. Their state and
  methods below are modelled from the spec's interface section. A session of the table
  is its identity and its \<open>Config\<close>.
\<close>

record SessionState =
  ss_imsi :: string
  ss_session_id :: string
  ss_cfg :: Config

record LocalEnforcer =
  session_map :: "SessionState list"
  pending_updates :: "CreditUsageUpdate list"
  pending_monitors :: "UsageMonitorUpdate list"
  applied_responses :: "UpdateSessionResponse list"

text \<open>
  Modelled from the spec: the rule-usage record of \<^verbatim>\<open>RuleRecordTable\<close> and
  \<^verbatim>\<open>LocalEnforcer::aggregate_records\<close> are missing. The spec leaves the credit
  arithmetic out, so a record is represented by the charging updates and the monitor
  updates that aggregating it makes pending (one queued batch).
\<close>

record RuleRecord =
  charging_usage :: "CreditUsageUpdate list"
  monitor_usage :: "UsageMonitorUpdate list"

record RuleRecordTable =
  records :: "RuleRecord list"
  epoch :: "64 word"

text \<open>
  Modelled from the spec: \<^verbatim>\<open>LocalEnforcer::aggregate_records\<close> is missing
  (``aggregate incoming rule-usage records''): every record's updates join the pending
  state.
\<close>

definition aggregate_records :: "RuleRecordTable \<Rightarrow> LocalEnforcer \<Rightarrow> LocalEnforcer" where
  "aggregate_records request enf =
     enf\<lparr>pending_updates := pending_updates enf @ concat (map charging_usage (records request)),
         pending_monitors := pending_monitors enf @ concat (map monitor_usage (records request))\<rparr>"

text \<open>
  Modelled from the spec: \<^verbatim>\<open>LocalEnforcer::collect_updates\<close> is missing (``pulls a
  snapshot of pending updates''): the snapshot is everything pending, and what is in
  the snapshot is no longer pending.
\<close>

definition collect_updates :: "LocalEnforcer \<Rightarrow> UpdateSessionRequest \<times> LocalEnforcer" where
  "collect_updates enf =
     (\<lparr>updates = pending_updates enf, usage_monitors = pending_monitors enf\<rparr>,
      enf\<lparr>pending_updates := [], pending_monitors := []\<rparr>)"

text \<open>
  Modelled from the spec: \<^verbatim>\<open>LocalEnforcer::reset_updates\<close> is missing (``the entire
  snapshot is rolled back into CreditEngine's pending state''): the snapshot goes back in
  front of what has accumulated since.
\<close>

definition reset_updates :: "UpdateSessionRequest \<Rightarrow> LocalEnforcer \<Rightarrow> LocalEnforcer" where
  "reset_updates request enf =
     enf\<lparr>pending_updates := updates request @ pending_updates enf,
         pending_monitors := usage_monitors request @ pending_monitors enf\<rparr>"

text \<open>
  Modelled from the spec: \<^verbatim>\<open>LocalEnforcer::update_session_credit\<close> is missing
  (``CreditEngine applies the acknowledgement''): the credit arithmetic is out of the
  spec's scope, so the acknowledgement is recorded as applied and nothing becomes
  pending.
\<close>

definition update_session_credit :: "UpdateSessionResponse \<Rightarrow> LocalEnforcer \<Rightarrow> LocalEnforcer" where
  "update_session_credit response enf =
     enf\<lparr>applied_responses := applied_responses enf @ [response]\<rparr>"

text \<open>
  Modelled from the spec: \<^verbatim>\<open>LocalEnforcer::is_imsi_duplicate\<close> and
  \<^verbatim>\<open>LocalEnforcer::is_session_duplicate\<close> are missing: a live session exists for the
  subscriber id; one exists whose \<open>Config\<close> is identical (all fields significant).
\<close>

definition is_imsi_duplicate :: "string \<Rightarrow> LocalEnforcer \<Rightarrow> bool" where
  "is_imsi_duplicate imsi enf = list_ex (\<lambda>s. ss_imsi s = imsi) (session_map enf)"

definition is_session_duplicate :: "string \<Rightarrow> Config \<Rightarrow> LocalEnforcer \<Rightarrow> bool" where
  "is_session_duplicate imsi cfg enf =
     list_ex (\<lambda>s. ss_imsi s = imsi \<and> ss_cfg s = cfg) (session_map enf)"

text \<open>
  Modelled from the spec: \<^verbatim>\<open>LocalEnforcer::init_session_credit\<close> is missing
  (\<^verbatim>\<open>init(session_id, config, create_response) -> bool\<close>). The spec does not say when
  the initialisation fails, so its outcome \<open>init_ok\<close> is an input; the session joins the
  table when it succeeds and nothing changes when it fails.
\<close>

definition init_session_credit ::
  "bool \<Rightarrow> string \<Rightarrow> string \<Rightarrow> Config \<Rightarrow> CreateSessionResponse \<Rightarrow> LocalEnforcer
     \<Rightarrow> bool \<times> LocalEnforcer" where
  "init_session_credit init_ok imsi sid cfg response enf =
     (if init_ok then
        (True, enf\<lparr>session_map := session_map enf @
                  [\<lparr>ss_imsi = imsi, ss_session_id = sid, ss_cfg = cfg\<rparr>]\<rparr>)
      else (False, enf))"

text \<open>
  Modelled from the spec: \<^verbatim>\<open>LocalEnforcer::terminate_subscriber\<close> is missing. The
  termination protocol of the spec: with no session for the subscriber id the call
  fails with ``not found'' (the \<^verbatim>\<open>SessionNotFound\<close> exception the handler catches) and
  no phase runs; otherwise the termination request of each session of the subscriber is
  handed to the callback and the session is deleted from the table unconditionally. The
  draining of final usage between the two (a bounded wait) is not modelled: the call is
  one step.
\<close>

datatype enforcer_error = SessionNotFound

definition terminate_subscriber ::
  "string \<Rightarrow> LocalEnforcer \<Rightarrow> enforcer_error + (SessionTerminateRequest list \<times> LocalEnforcer)" where
  "terminate_subscriber imsi enf =
     (if \<not> is_imsi_duplicate imsi enf then Inl SessionNotFound
      else Inr (map (\<lambda>s. \<lparr>term_sid = ss_imsi s, term_session_id = ss_session_id s\<rparr>)
                  (filter (\<lambda>s. ss_imsi s = imsi) (session_map enf)),
                enf\<lparr>session_map := filter (\<lambda>s. ss_imsi s \<noteq> imsi) (session_map enf)\<rparr>))"

subsection \<open>The handler's state\<close>

text \<open>
  A response callback is either the completion of an inbound RPC, named by the tag of
  the call, or the callback of lines 223-225 that drops the answer.
\<close>

datatype response_callback = Caller nat | Discard

text \<open>
  The closures handed to \<^verbatim>\<open>runInEventBaseThread\<close>: the one of \<^verbatim>\<open>ReportRuleStats\<close>
  (lines 42-45), of \<^verbatim>\<open>restart_pipelined\<close> (lines 135-139), of
  \<^verbatim>\<open>handle_setup_callback\<close> (lines 101-109 and 117-125, the same closure) and of
  \<^verbatim>\<open>EndSession\<close> (lines 320-335).
\<close>

datatype task =
  AggregateTask RuleRecordTable
  | SetupTask "64 word"
  | RetryTask "64 word"
  | EndSessionTask SubscriberID response_callback

text \<open>
  The asynchronous calls to the collaborators, each with what its completion callback
  captures: \<^verbatim>\<open>enforcer_->setup\<close> with \<^verbatim>\<open>handle_setup_callback\<close> bound to the epoch,
  \<^verbatim>\<open>report_updates\<close> (the request), \<^verbatim>\<open>report_create_session\<close> (imsi, sid, cfg,
  response callback) and \<^verbatim>\<open>report_terminate_session\<close> (the request).
\<close>

datatype rpc =
  SetupCall "64 word"
  | ReportUpdates UpdateSessionRequest
  | ReportCreateSession CreateSessionRequest string string Config response_callback
  | ReportTerminateSession SessionTerminateRequest

record handler =
  enforcer :: LocalEnforcer
  current_epoch :: "64 word"
  reported_epoch :: "64 word"
  retry_timeout :: nat
  event_base :: "task list"
  timers :: "(nat \<times> 64 word) list"
  in_flight :: "rpc list"
  replies :: "(nat \<times> Status) list"

text \<open>The constructor (lines 24-33), with nothing queued, scheduled or in flight.\<close>

definition LocalSessionManagerHandlerImpl :: "LocalEnforcer \<Rightarrow> handler" where
  "LocalSessionManagerHandlerImpl enf =
     \<lparr>enforcer = enf, current_epoch = 0, reported_epoch = 0, retry_timeout = 1,
      event_base = [], timers = [], in_flight = [], replies = []\<rparr>"

definition empty_enforcer :: LocalEnforcer where
  "empty_enforcer =
     \<lparr>session_map = [], pending_updates = [], pending_monitors = [], applied_responses = []\<rparr>"

text \<open>Invoking a response callback: the caller gets the status, or it is dropped.\<close>

definition invoke :: "response_callback \<Rightarrow> Status \<Rightarrow> handler \<Rightarrow> handler" where
  "invoke response_callback status h =
     (case response_callback of
        Caller k \<Rightarrow> h\<lparr>replies := replies h @ [(k, status)]\<rparr>
      | Discard \<Rightarrow> h)"

text \<open>\<^verbatim>\<open>runInEventBaseThread\<close> appends the closure to the event base's queue.\<close>

definition runInEventBaseThread :: "task \<Rightarrow> handler \<Rightarrow> handler" where
  "runInEventBaseThread t h = h\<lparr>event_base := event_base h @ [t]\<rparr>"

text \<open>
  Modelled from the spec: \<^verbatim>\<open>LocalEnforcer::setup\<close> and the three calls of
  \<^verbatim>\<open>SessionCloudReporter\<close> are missing; each issues one asynchronous request, which
  stays in flight until its completion is delivered (\<open>enforcer_setup\<close> is
  \<^verbatim>\<open>enforcer_->setup\<close>).
\<close>

definition enforcer_setup :: "64 word \<Rightarrow> handler \<Rightarrow> handler" where
  "enforcer_setup e h = h\<lparr>in_flight := in_flight h @ [SetupCall e]\<rparr>"

definition report_updates :: "UpdateSessionRequest \<Rightarrow> handler \<Rightarrow> handler" where
  "report_updates request h = h\<lparr>in_flight := in_flight h @ [ReportUpdates request]\<rparr>"

definition report_create_session ::
  "CreateSessionRequest \<Rightarrow> string \<Rightarrow> string \<Rightarrow> Config \<Rightarrow> response_callback \<Rightarrow> handler \<Rightarrow> handler" where
  "report_create_session request imsi sid cfg response_callback h =
     h\<lparr>in_flight := in_flight h @ [ReportCreateSession request imsi sid cfg response_callback]\<rparr>"

definition report_terminate_session :: "SessionTerminateRequest \<Rightarrow> handler \<Rightarrow> handler" where
  "report_terminate_session term_req h =
     h\<lparr>in_flight := in_flight h @ [ReportTerminateSession term_req]\<rparr>"

subsection \<open>The usage reporting loop\<close>

text \<open>
  \<^verbatim>\<open>check_usage_for_reporting\<close> (lines 56-80) up to the issue of the report call, and
  the completion callback of lines 68-79, which captures \<open>request\<close>.
\<close>

definition check_usage_for_reporting :: "handler \<Rightarrow> handler" where
  "check_usage_for_reporting h =
     (let (request, enf) = collect_updates (enforcer h);
          h1 = h\<lparr>enforcer := enf\<rparr>
      in if updates_size request = 0 \<and> usage_monitors_size request = 0 then h1
         else report_updates request h1)"

definition report_updates_callback ::
  "UpdateSessionRequest \<Rightarrow> Status \<Rightarrow> UpdateSessionResponse \<Rightarrow> handler \<Rightarrow> handler" where
  "report_updates_callback request status response h =
     (if \<not> ok status then h\<lparr>enforcer := reset_updates request (enforcer h)\<rparr>
      else check_usage_for_reporting
             (h\<lparr>enforcer := update_session_credit response (enforcer h)\<rparr>))"

subsection \<open>Rule statistics and the dataplane epoch\<close>

definition is_pipelined_restarted :: "handler \<Rightarrow> bool" where
  "is_pipelined_restarted h =
     (if current_epoch h = 0 \<or> current_epoch h \<noteq> reported_epoch h then True else False)"

definition restart_pipelined :: "64 word \<Rightarrow> handler \<Rightarrow> bool \<times> handler" where
  "restart_pipelined e h = (True, runInEventBaseThread (SetupTask e) h)"

text \<open>
  \<^verbatim>\<open>ReportRuleStats\<close> (lines 35-54): the closure is queued first, then the epochs are
  read and written by the calling thread, then the caller is answered.
\<close>

definition ReportRuleStats :: "RuleRecordTable \<Rightarrow> response_callback \<Rightarrow> handler \<Rightarrow> handler" where
  "ReportRuleStats request response_callback h =
     (let h1 = runInEventBaseThread (AggregateTask request) h;
          h2 = h1\<lparr>reported_epoch := epoch request\<rparr>;
          h3 = (if is_pipelined_restarted h2 then
                  (let h' = snd (restart_pipelined (reported_epoch h2) h2)
                   in h'\<lparr>current_epoch := reported_epoch h'\<rparr>)
                else h2)
      in invoke response_callback Status_OK h3)"

text \<open>
  \<^verbatim>\<open>handle_setup_callback\<close> (lines 91-129). The test of the status is not followed by
  a return: the tests of the result run after it in every case.
\<close>

definition handle_setup_callback ::
  "64 word \<Rightarrow> Status \<Rightarrow> SetupFlowsResult \<Rightarrow> handler \<Rightarrow> handler" where
  "handle_setup_callback e status resp h =
     (let h1 = (if \<not> ok status then runInEventBaseThread (RetryTask e) h else h)
      in if result resp = OUTDATED_EPOCH then h1
         else if result resp = FAILURE then runInEventBaseThread (RetryTask e) h1
         else h1)"

subsection \<open>Ending a session\<close>

text \<open>
  The completion callback of \<^verbatim>\<open>report_termination\<close> (lines 289-299): both branches
  only log.
\<close>

definition report_termination_callback ::
  "SessionTerminateRequest \<Rightarrow> Status \<Rightarrow> handler \<Rightarrow> handler" where
  "report_termination_callback term_req status h = (if \<not> ok status then h else h)"

definition report_termination :: "SessionTerminateRequest \<Rightarrow> handler \<Rightarrow> handler" where
  "report_termination term_req h = report_terminate_session term_req h"

definition EndSession :: "SubscriberID \<Rightarrow> response_callback \<Rightarrow> handler \<Rightarrow> handler" where
  "EndSession request response_callback h =
     runInEventBaseThread (EndSessionTask request response_callback) h"

text \<open>
  The closure of \<^verbatim>\<open>EndSession\<close> (lines 320-335): the \<^verbatim>\<open>try\<close> block and its
  \<^verbatim>\<open>catch\<close>.
\<close>

definition end_session_task :: "SubscriberID \<Rightarrow> response_callback \<Rightarrow> handler \<Rightarrow> handler" where
  "end_session_task request_cpy response_callback h =
     (case terminate_subscriber (sid_id request_cpy) (enforcer h) of
        Inr (term_reqs, enf) \<Rightarrow>
          invoke response_callback Status_OK
            (fold report_termination term_reqs (h\<lparr>enforcer := enf\<rparr>))
      | Inl SessionNotFound \<Rightarrow>
          invoke response_callback
            \<lparr>error_code = FAILED_PRECONDITION, error_message = ''Session not found''\<rparr> h)"

subsection \<open>Creating a session\<close>

definition copy_session_info2create_req ::
  "LocalCreateSessionRequest \<Rightarrow> string \<Rightarrow> CreateSessionRequest" where
  "copy_session_info2create_req request sid =
     \<lparr>cs_subscriber = req_sid request,
      cs_session_id = sid,
      cs_ue_ipv4 = req_ue_ipv4 request,
      cs_spgw_ipv4 = req_spgw_ipv4 request,
      cs_apn = req_apn request,
      cs_msisdn = req_msisdn request,
      cs_imei = req_imei request,
      cs_plmn_id = req_plmn_id request,
      cs_imsi_plmn_id = req_imsi_plmn_id request,
      cs_user_location = req_user_location request,
      cs_hardware_addr = req_hardware_addr request,
      cs_qos_info = (if has_qos_info request then req_qos_info request else None)\<rparr>"

text \<open>The \<open>Config\<close> that \<^verbatim>\<open>CreateSession\<close> builds from the request (lines 191-210).\<close>

definition make_cfg :: "LocalCreateSessionRequest \<Rightarrow> Config" where
  "make_cfg request =
     (let mac = convert_mac_addr_to_str (req_hardware_addr request);
          cfg = \<lparr>ue_ipv4 = req_ue_ipv4 request,
                 spgw_ipv4 = req_spgw_ipv4 request,
                 msisdn = req_msisdn request,
                 apn = req_apn request,
                 imei = req_imei request,
                 plmn_id = req_plmn_id request,
                 imsi_plmn_id = req_imsi_plmn_id request,
                 user_location = req_user_location request,
                 rat_type = req_rat_type request,
                 mac_addr = mac,
                 hardware_addr = req_hardware_addr request,
                 radius_session_id = req_radius_session_id request,
                 bearer_id = req_bearer_id request,
                 qos_info = \<lparr>enabled = False, qci = 0\<rparr>\<rparr>;
          qos = \<lparr>enabled = has_qos_info request, qci = 0\<rparr>;
          qos = (case req_qos_info request of
                   Some q \<Rightarrow> qos\<lparr>qci := qos_class_id q\<rparr>
                 | None \<Rightarrow> qos)
      in cfg\<lparr>qos_info := qos\<rparr>)"

text \<open>
  The completion callback of \<^verbatim>\<open>send_create_session\<close> (lines 241-260), which captures
  imsi, sid, cfg and the response callback.
\<close>

definition create_session_callback ::
  "string \<Rightarrow> string \<Rightarrow> Config \<Rightarrow> response_callback \<Rightarrow> Status \<Rightarrow> CreateSessionResponse
     \<Rightarrow> bool \<Rightarrow> handler \<Rightarrow> handler" where
  "create_session_callback imsi sid cfg response_callback status response init_ok h =
     (if ok status then
        (let (success, enf) = init_session_credit init_ok imsi sid cfg response (enforcer h);
             h1 = h\<lparr>enforcer := enf\<rparr>;
             status1 = (if \<not> success then
                          \<lparr>error_code = FAILED_PRECONDITION,
                           error_message = ''Failed to initialize session''\<rparr>
                        else status)
         in invoke response_callback status1 h1)
      else invoke response_callback status h)"

text \<open>
  The status that the callback gives the caller when the initialisation fails (lines
  248-250), under a name.
\<close>

definition init_failure :: Status where
  "init_failure =
     \<lparr>error_code = FAILED_PRECONDITION, error_message = ''Failed to initialize session''\<rparr>"

definition send_create_session ::
  "CreateSessionRequest \<Rightarrow> string \<Rightarrow> string \<Rightarrow> Config \<Rightarrow> response_callback
     \<Rightarrow> handler \<Rightarrow> handler" where
  "send_create_session request imsi sid cfg response_callback h =
     report_create_session request imsi sid cfg response_callback h"

text \<open>
  \<^verbatim>\<open>CreateSession\<close> (lines 184-230). The generator \<^verbatim>\<open>id_gen_\<close> is not among the
  sources: \<open>gen_session_id\<close> is a parameter.
\<close>

definition CreateSession ::
  "(string \<Rightarrow> string) \<Rightarrow> LocalCreateSessionRequest \<Rightarrow> response_callback
     \<Rightarrow> handler \<Rightarrow> handler" where
  "CreateSession gen_session_id request response_callback h =
     (let imsi = sid_id (req_sid request);
          sid = gen_session_id imsi;
          cfg = make_cfg request
      in if is_imsi_duplicate imsi (enforcer h) then
           (if is_session_duplicate imsi cfg (enforcer h) then h
            else send_create_session (copy_session_info2create_req request sid)
                   imsi sid cfg response_callback
                   (EndSession (req_sid request) Discard h))
         else send_create_session (copy_session_info2create_req request sid)
                imsi sid cfg response_callback h)"

subsection \<open>Running the queued closures and delivering completions\<close>

fun run_task :: "task \<Rightarrow> handler \<Rightarrow> handler" where
  "run_task (AggregateTask request_cpy) h =
     check_usage_for_reporting
       (h\<lparr>enforcer := aggregate_records request_cpy (enforcer h)\<rparr>)"
| "run_task (SetupTask e) h = enforcer_setup e h"
| "run_task (RetryTask e) h = h\<lparr>timers := timers h @ [(retry_timeout h, e)]\<rparr>"
| "run_task (EndSessionTask request_cpy response_callback) h =
     end_session_task request_cpy response_callback h"

text \<open>
  What a collaborator answers: the status and the response of the call's kind. The
  answer to a create call comes with the outcome that the credit initialisation will
  have (see \<open>init_session_credit\<close>).
\<close>

datatype response =
  SetupResp SetupFlowsResult
  | UpdateResp UpdateSessionResponse
  | CreateResp CreateSessionResponse bool
  | TerminateResp

fun complete :: "rpc \<Rightarrow> Status \<Rightarrow> response \<Rightarrow> handler \<Rightarrow> handler" where
  "complete (SetupCall e) status (SetupResp resp) h = handle_setup_callback e status resp h"
| "complete (ReportUpdates request) status (UpdateResp resp) h =
     report_updates_callback request status resp h"
| "complete (ReportCreateSession request imsi sid cfg cb) status (CreateResp resp init_ok) h =
     create_session_callback imsi sid cfg cb status resp init_ok h"
| "complete (ReportTerminateSession term_req) status TerminateResp h =
     report_termination_callback term_req status h"
| "complete _ _ _ h = h"

fun answers :: "rpc \<Rightarrow> response \<Rightarrow> bool" where
  "answers (SetupCall e) (SetupResp resp) = True"
| "answers (ReportUpdates request) (UpdateResp resp) = True"
| "answers (ReportCreateSession request imsi sid cfg cb) (CreateResp resp init_ok) = True"
| "answers (ReportTerminateSession term_req) TerminateResp = True"
| "answers _ _ = False"

text \<open>
  The events of a run: the three inbound RPCs (with the caller's tag), the event base
  running the closure at the head of its queue, the timer \<open>i\<close> firing (it calls
  \<^verbatim>\<open>enforcer_->setup\<close>), and the call \<open>i\<close> in flight completing with an answer of its
  kind. An event that is not enabled leaves the state as it is.
\<close>

datatype event =
  RpcReportRuleStats RuleRecordTable nat
  | RpcCreateSession LocalCreateSessionRequest nat
  | RpcEndSession SubscriberID nat
  | Run
  | Fire nat
  | Complete nat Status response

definition remove_nth :: "nat \<Rightarrow> 'a list \<Rightarrow> 'a list" where
  "remove_nth i xs = take i xs @ drop (Suc i) xs"

fun step :: "(string \<Rightarrow> string) \<Rightarrow> handler \<Rightarrow> event \<Rightarrow> handler" where
  "step g h (RpcReportRuleStats request k) = ReportRuleStats request (Caller k) h"
| "step g h (RpcCreateSession request k) = CreateSession g request (Caller k) h"
| "step g h (RpcEndSession request k) = EndSession request (Caller k) h"
| "step g h Run =
     (case event_base h of
        [] \<Rightarrow> h
      | t # ts \<Rightarrow> run_task t (h\<lparr>event_base := ts\<rparr>))"
| "step g h (Fire i) =
     (if i < length (timers h) then
        enforcer_setup (snd (timers h ! i)) (h\<lparr>timers := remove_nth i (timers h)\<rparr>)
      else h)"
| "step g h (Complete i status resp) =
     (if i < length (in_flight h) \<and> answers (in_flight h ! i) resp then
        complete (in_flight h ! i) status resp (h\<lparr>in_flight := remove_nth i (in_flight h)\<rparr>)
      else h)"

definition run :: "(string \<Rightarrow> string) \<Rightarrow> handler \<Rightarrow> event list \<Rightarrow> handler" where
  "run g h evs = foldl (step g) h evs"

text \<open>The report calls in flight.\<close>

fun is_report :: "rpc \<Rightarrow> bool" where
  "is_report (ReportUpdates request) = True"
| "is_report _ = False"

definition reports_in_flight :: "handler \<Rightarrow> nat" where
  "reports_in_flight h = length (filter is_report (in_flight h))"

text \<open>Nothing is pending in the credit engine.\<close>

definition no_pending :: "LocalEnforcer \<Rightarrow> bool" where
  "no_pending enf = (pending_updates enf = [] \<and> pending_monitors enf = [])"

text \<open>
  Draining: while a report call is in flight, the oldest one (\<open>take_report\<close> finds it)
  completes with success and the answer \<open>ack request\<close>. The result is the list of the
  requests completed, in order, and the final state. Each completion runs the callback
  of the source, so the function terminates only because the loop of the source does;
  the measure counts the calls in flight twice and the pending state once.
\<close>

fun take_report :: "rpc list \<Rightarrow> (UpdateSessionRequest \<times> rpc list) option" where
  "take_report [] = None"
| "take_report (ReportUpdates request # cs) = Some (request, cs)"
| "take_report (c # cs) =
     (case take_report cs of None \<Rightarrow> None | Some (request, cs') \<Rightarrow> Some (request, c # cs'))"

definition drain_measure :: "handler \<Rightarrow> nat" where
  "drain_measure h = 2 * reports_in_flight h + (if no_pending (enforcer h) then 0 else 1)"

function drain ::
  "(UpdateSessionRequest \<Rightarrow> UpdateSessionResponse) \<Rightarrow> handler
     \<Rightarrow> UpdateSessionRequest list \<times> handler" where
  "drain ack h =
     (case take_report (in_flight h) of
        None \<Rightarrow> ([], h)
      | Some (request, rest) \<Rightarrow>
          (let (done, h') =
                 drain ack (report_updates_callback request Status_OK (ack request)
                              (h\<lparr>in_flight := rest\<rparr>))
           in (request # done, h')))"
  by pat_completeness auto
termination
proof (relation "measure (\<lambda>(ack, h). drain_measure h)")
  show "wf (measure (\<lambda>(ack, h). drain_measure h))" by simp
next
  fix ack :: "UpdateSessionRequest \<Rightarrow> UpdateSessionResponse"
  fix h :: handler and x2 request rest
  assume a: "take_report (in_flight h) = Some x2" "(request, rest) = x2"
  have taken: "length (filter is_report cs) = Suc (length (filter is_report cs'))"
    if "take_report cs = Some (r, cs')" for cs r cs'
    using that
  proof (induction cs arbitrary: cs' rule: take_report.induct)
    case 1
    then show ?case by simp
  next
    case (2 request cs)
    then show ?case by simp
  qed (auto split: option.splits)
  from a have "take_report (in_flight h) = Some (request, rest)" by simp
  then have n: "reports_in_flight h = Suc (length (filter is_report rest))"
    unfolding reports_in_flight_def by (rule taken)
  show "((ack, report_updates_callback request Status_OK (ack request) (h\<lparr>in_flight := rest\<rparr>)),
         (ack, h)) \<in> measure (\<lambda>(ack, h). drain_measure h)"
    using n
    by (simp add: drain_measure_def report_updates_callback_def check_usage_for_reporting_def
        collect_updates_def update_session_credit_def report_updates_def reports_in_flight_def
        no_pending_def ok_def Status_OK_def updates_size_def usage_monitors_size_def Let_def)
qed

declare drain.simps [simp del]

subsection \<open>Example data\<close>

text \<open>Concrete requests and states, used where a property is evaluated on an input.\<close>

definition usage_table :: RuleRecordTable where
  "usage_table =
     \<lparr>records = [\<lparr>charging_usage = [CreditUsageUpdate ''IMSI001010000000001'' 1024],
                  monitor_usage = []\<rparr>],
      epoch = 7\<rparr>"

definition ack_all :: "UpdateSessionRequest \<Rightarrow> UpdateSessionResponse" where
  "ack_all request = UpdateSessionResponse []"

definition unavailable :: Status where
  "unavailable = \<lparr>error_code = UNAVAILABLE, error_message = ''connection refused''\<rparr>"

definition example_request :: LocalCreateSessionRequest where
  "example_request =
     \<lparr>req_sid = \<lparr>sid_id = ''IMSI001010000000001''\<rparr>,
      req_ue_ipv4 = ''192.168.128.11'',
      req_spgw_ipv4 = [],
      req_msisdn = ''5100001234'',
      req_apn = ''magma.ipv4'',
      req_imei = [],
      req_plmn_id = [],
      req_imsi_plmn_id = [],
      req_user_location = [],
      req_rat_type = TGPP_WLAN,
      req_hardware_addr = [0x00, 0x1A, 0xFF, 0x0B, 0x9C, 0x7E],
      req_radius_session_id = ''sess-1'',
      req_bearer_id = 5,
      req_qos_info = None\<rparr>"

definition example_handler :: handler where
  "example_handler =
     LocalSessionManagerHandlerImpl
       (empty_enforcer\<lparr>session_map :=
          [\<lparr>ss_imsi = ''IMSI001010000000001'',
            ss_session_id = ''IMSI001010000000001-1'',
            ss_cfg = make_cfg example_request\<rparr>]\<rparr>)"

definition reporting_handler :: handler where
  "reporting_handler =
     check_usage_for_reporting
       (LocalSessionManagerHandlerImpl (aggregate_records usage_table empty_enforcer))"

section \<open>Properties\<close>

subsection \<open>Auxiliary facts about the state\<close>

lemma session_duplicate_imsi:
  "is_session_duplicate imsi cfg enf \<Longrightarrow> is_imsi_duplicate imsi enf"
  by (auto simp: is_session_duplicate_def is_imsi_duplicate_def list_ex_iff)

lemma in_flight_invoke [simp]: "in_flight (invoke cb st h) = in_flight h"
  by (simp add: invoke_def split: response_callback.split)

lemma enforcer_invoke [simp]: "enforcer (invoke cb st h) = enforcer h"
  by (simp add: invoke_def split: response_callback.split)

lemma event_base_invoke [simp]: "event_base (invoke cb st h) = event_base h"
  by (simp add: invoke_def split: response_callback.split)

lemma enforcer_fold_report_termination [simp]:
  "enforcer (fold report_termination ts h) = enforcer h"
  by (induction ts arbitrary: h) (simp_all add: report_termination_def report_terminate_session_def)

lemma in_flight_fold_report_termination [simp]:
  "in_flight (fold report_termination ts h) = in_flight h @ map ReportTerminateSession ts"
  by (induction ts arbitrary: h) (simp_all add: report_termination_def report_terminate_session_def)

lemma replies_fold_report_termination [simp]:
  "replies (fold report_termination ts h) = replies h"
  by (induction ts arbitrary: h) (simp_all add: report_termination_def report_terminate_session_def)

lemma not_duplicate_after_filter:
  "\<not> is_imsi_duplicate imsi (enf\<lparr>session_map := filter (\<lambda>s. ss_imsi s \<noteq> imsi) (session_map enf)\<rparr>)"
  by (simp add: is_imsi_duplicate_def list_ex_iff)

lemma replies_invoke_Caller [simp]:
  "replies (invoke (Caller k) st h) = replies h @ [(k, st)]"
  by (simp add: invoke_def)

lemma complete_terminate_report:
  "i < length (in_flight h) \<Longrightarrow> in_flight h ! i = ReportTerminateSession term_req \<Longrightarrow>
   step g h (Complete i status TerminateResp) = h\<lparr>in_flight := remove_nth i (in_flight h)\<rparr>"
  by (simp add: report_termination_callback_def)

lemma enforcer_complete_terminate:
  "enforcer (step g h (Complete i status TerminateResp)) = enforcer h"
proof (cases "i < length (in_flight h) \<and> answers (in_flight h ! i) TerminateResp")
  case True
  then obtain term_req where "in_flight h ! i = ReportTerminateSession term_req"
    by (cases "in_flight h ! i") simp_all
  then show ?thesis
    using True by (simp add: report_termination_callback_def)
next
  case False
  then show ?thesis by auto
qed

lemma reports_in_flight_remove_nth:
  "i < length cs \<Longrightarrow> is_report (cs ! i) \<Longrightarrow>
   Suc (length (filter is_report (remove_nth i cs))) = length (filter is_report cs)"
proof -
  assume i: "i < length cs" and r: "is_report (cs ! i)"
  have "cs = take i cs @ cs ! i # drop (Suc i) cs"
    using i by (simp add: id_take_nth_drop)
  then have "filter is_report cs =
      filter is_report (take i cs) @ cs ! i # filter is_report (drop (Suc i) cs)"
    using r by (metis filter.simps(2) filter_append)
  then show ?thesis by (simp add: remove_nth_def)
qed

lemma epochs_invoke [simp]:
  "current_epoch (invoke cb st h) = current_epoch h"
  "reported_epoch (invoke cb st h) = reported_epoch h"
  "timers (invoke cb st h) = timers h"
  "retry_timeout (invoke cb st h) = retry_timeout h"
  by (simp_all add: invoke_def split: response_callback.split)

lemmas ReportRuleStats_defs =
  ReportRuleStats_def is_pipelined_restarted_def restart_pipelined_def
  runInEventBaseThread_def Let_def

lemma retry_timeout_check [simp]:
  "retry_timeout (check_usage_for_reporting h) = retry_timeout h"
  by (simp add: check_usage_for_reporting_def collect_updates_def report_updates_def Let_def)

lemma retry_timeout_fold_report_termination [simp]:
  "retry_timeout (fold report_termination ts h) = retry_timeout h"
  by (induction ts arbitrary: h) (simp_all add: report_termination_def report_terminate_session_def)

lemma retry_timeout_run_task [simp]: "retry_timeout (run_task t h) = retry_timeout h"
  by (cases t)
     (simp_all add: enforcer_setup_def end_session_task_def
        split: sum.split enforcer_error.split prod.split)

lemma retry_timeout_complete [simp]:
  "retry_timeout (complete c status resp h) = retry_timeout h"
  by (cases "(c, status, resp, h)" rule: complete.cases)
     (simp_all add: handle_setup_callback_def runInEventBaseThread_def Let_def
        report_updates_callback_def create_session_callback_def
        report_termination_callback_def split: prod.split)

lemma retry_timeout_CreateSession [simp]:
  "retry_timeout (CreateSession g request cb h) = retry_timeout h"
  by (simp add: CreateSession_def Let_def send_create_session_def report_create_session_def
      EndSession_def runInEventBaseThread_def)

lemma retry_timeout_step: "retry_timeout (step g h ev) = retry_timeout h"
  by (cases ev)
     (simp_all add: ReportRuleStats_defs EndSession_def enforcer_setup_def split: list.split)

lemma take_report_None: "take_report cs = None \<longleftrightarrow> filter is_report cs = []"
  by (induction cs rule: take_report.induct) (auto split: option.splits)

lemma take_report_Some:
  "take_report cs = Some (r, cs') \<Longrightarrow>
   length (filter is_report cs) = Suc (length (filter is_report cs'))"
  by (induction cs arbitrary: cs' rule: take_report.induct) (auto split: option.splits)

lemma reports_in_flight_check:
  "reports_in_flight (check_usage_for_reporting h) =
     reports_in_flight h + (if no_pending (enforcer h) then 0 else 1)"
  by (auto simp: check_usage_for_reporting_def collect_updates_def report_updates_def Let_def
      reports_in_flight_def no_pending_def updates_size_def usage_monitors_size_def)

lemma no_pending_check: "no_pending (enforcer (check_usage_for_reporting h))"
  by (simp add: check_usage_for_reporting_def collect_updates_def report_updates_def Let_def
      no_pending_def)

lemma report_updates_callback_ok:
  "ok status \<Longrightarrow>
   report_updates_callback request status resp h =
     check_usage_for_reporting (h\<lparr>enforcer := update_session_credit resp (enforcer h)\<rparr>)"
  by (simp add: report_updates_callback_def)

lemma no_pending_update_session_credit [simp]:
  "no_pending (update_session_credit resp enf) = no_pending enf"
  by (simp add: no_pending_def update_session_credit_def)

lemma reports_in_flight_enforcer_update [simp]:
  "reports_in_flight (h\<lparr>enforcer := enf\<rparr>) = reports_in_flight h"
  by (simp add: reports_in_flight_def)

lemma ok_Status_OK [simp]: "ok Status_OK"
  by (simp add: ok_def Status_OK_def)

lemma drain_result:
  "reports_in_flight (snd (drain ack h)) = 0
   \<and> (no_pending (enforcer h) \<or> 0 < reports_in_flight h \<longrightarrow>
        no_pending (enforcer (snd (drain ack h))))
   \<and> length (fst (drain ack h)) =
        reports_in_flight h +
        (if 0 < reports_in_flight h \<and> \<not> no_pending (enforcer h) then 1 else 0)"
proof (induction ack h rule: drain.induct)
  case (1 ack h)
  show ?case
  proof (cases "take_report (in_flight h)")
    case None
    then have "reports_in_flight h = 0"
      by (simp add: take_report_None reports_in_flight_def)
    moreover have "drain ack h = ([], h)"
      using None by (subst drain.simps) simp
    ultimately show ?thesis by simp
  next
    case (Some p)
    obtain request rest where p: "p = (request, rest)" by (cases p)
    define h1 where
      "h1 = report_updates_callback request Status_OK (ack request) (h\<lparr>in_flight := rest\<rparr>)"
    have n: "reports_in_flight h = Suc (length (filter is_report rest))"
      using Some p by (simp add: take_report_Some reports_in_flight_def)
    have h1_eq: "h1 = check_usage_for_reporting
        (h\<lparr>in_flight := rest, enforcer := update_session_credit (ack request) (enforcer h)\<rparr>)"
      by (simp add: h1_def report_updates_callback_ok)
    have r1: "reports_in_flight h1 =
        length (filter is_report rest) + (if no_pending (enforcer h) then 0 else 1)"
      by (simp add: h1_eq reports_in_flight_check) (simp add: reports_in_flight_def)
    have p1: "no_pending (enforcer h1)"
      by (simp add: h1_eq no_pending_check)
    have d: "drain ack h = (request # fst (drain ack h1), snd (drain ack h1))"
      using Some p by (subst drain.simps) (simp add: h1_def split: prod.split)
    have ih: "reports_in_flight (snd (drain ack h1)) = 0
       \<and> (no_pending (enforcer h1) \<or> 0 < reports_in_flight h1 \<longrightarrow>
            no_pending (enforcer (snd (drain ack h1))))
       \<and> length (fst (drain ack h1)) =
            reports_in_flight h1 +
            (if 0 < reports_in_flight h1 \<and> \<not> no_pending (enforcer h1) then 1 else 0)"
      using "1.IH" [OF Some p [symmetric]] by (simp add: h1_def)
    show ?thesis
      using ih p1 r1 n by (simp add: d)
  qed
qed

lemma check_issues_call:
  "in_flight (check_usage_for_reporting h) =
     (if updates_size (fst (collect_updates (enforcer h))) = 0
         \<and> usage_monitors_size (fst (collect_updates (enforcer h))) = 0
      then in_flight h
      else in_flight h @ [ReportUpdates (fst (collect_updates (enforcer h)))])"
  by (simp add: check_usage_for_reporting_def report_updates_def Let_def split: prod.split)

lemma no_pending_aggregate:
  "no_pending (aggregate_records tbl enf) \<longleftrightarrow>
     no_pending enf \<and> concat (map charging_usage (records tbl)) = []
       \<and> concat (map monitor_usage (records tbl)) = []"
  by (auto simp: no_pending_def aggregate_records_def)

lemma reports_in_flight_invoke [simp]:
  "reports_in_flight (invoke cb st h) = reports_in_flight h"
  by (simp add: reports_in_flight_def)




lemma in_flight_handle_setup_callback [simp]:
  "in_flight (handle_setup_callback e status resp h) = in_flight h"
  by (simp add: handle_setup_callback_def runInEventBaseThread_def Let_def)

lemma in_flight_create_session_callback [simp]:
  "in_flight (create_session_callback imsi sid cfg cb status resp init_ok h) = in_flight h"
  by (simp add: create_session_callback_def Let_def split: prod.split)

lemma in_flight_report_termination_callback [simp]:
  "in_flight (report_termination_callback term_req status h) = in_flight h"
  by (simp add: report_termination_callback_def)

lemma reports_in_flight_callbacks [simp]:
  "reports_in_flight (handle_setup_callback e status sresp h) = reports_in_flight h"
  "reports_in_flight (create_session_callback imsi sid cfg cb status cresp init_ok h) =
     reports_in_flight h"
  "reports_in_flight (report_termination_callback term_req status h) = reports_in_flight h"
  by (simp_all add: reports_in_flight_def)



lemma remove_nth_append_length [simp]: "remove_nth (length xs) (xs @ y # ys) = xs @ ys"
  by (simp add: remove_nth_def)

lemma session_map_end_session_task:
  "is_imsi_duplicate (sid_id request) (enforcer h) \<Longrightarrow>
   session_map (enforcer (end_session_task request cb h)) =
     filter (\<lambda>s. ss_imsi s \<noteq> sid_id request) (session_map (enforcer h))"
  by (simp add: end_session_task_def terminate_subscriber_def)

lemma in_flight_end_session_task:
  "is_imsi_duplicate (sid_id request) (enforcer h) \<Longrightarrow>
   in_flight (end_session_task request cb h) =
     in_flight h @ map ReportTerminateSession
       (map (\<lambda>s. \<lparr>term_sid = ss_imsi s, term_session_id = ss_session_id s\<rparr>)
          (filter (\<lambda>s. ss_imsi s = sid_id request) (session_map (enforcer h))))"
  by (simp add: end_session_task_def terminate_subscriber_def)

lemma create_session_issues_call:
  "\<not> is_session_duplicate (sid_id (req_sid request)) (make_cfg request) (enforcer h) \<Longrightarrow>
   in_flight (CreateSession g request cb h) =
     in_flight h @
       [ReportCreateSession
          (copy_session_info2create_req request (g (sid_id (req_sid request))))
          (sid_id (req_sid request)) (g (sid_id (req_sid request))) (make_cfg request) cb]"
  by (simp add: CreateSession_def Let_def send_create_session_def report_create_session_def
      EndSession_def runInEventBaseThread_def)

lemma create_session_keeps:
  "enforcer (CreateSession g request cb h) = enforcer h"
  "\<not> is_session_duplicate (sid_id (req_sid request)) (make_cfg request) (enforcer h) \<Longrightarrow>
   replies (CreateSession g request cb h) = replies h"
  by (simp_all add: CreateSession_def Let_def send_create_session_def report_create_session_def
      EndSession_def runInEventBaseThread_def)

lemma create_session_callback_fields:
  "replies (create_session_callback imsi sid cfg (Caller k) status resp init_ok h) =
     replies h @ [(k, if ok status \<and> \<not> init_ok then init_failure else status)]"
  "session_map (enforcer (create_session_callback imsi sid cfg cb status resp init_ok h)) =
     (if ok status \<and> init_ok
      then session_map (enforcer h) @ [\<lparr>ss_imsi = imsi, ss_session_id = sid, ss_cfg = cfg\<rparr>]
      else session_map (enforcer h))"
  "\<not> (ok status \<and> init_ok) \<Longrightarrow>
     enforcer (create_session_callback imsi sid cfg cb status resp init_ok h) = enforcer h"
  by (simp_all add: create_session_callback_def init_session_credit_def init_failure_def)

lemma create_session_run:
  assumes "\<not> is_session_duplicate (sid_id (req_sid request)) (make_cfg request) (enforcer h)"
  shows "run g h [RpcCreateSession request k,
                   Complete (length (in_flight h)) status (CreateResp resp init_ok)] =
     create_session_callback (sid_id (req_sid request)) (g (sid_id (req_sid request)))
       (make_cfg request) (Caller k) status resp init_ok
       ((CreateSession g request (Caller k) h)\<lparr>in_flight := in_flight h\<rparr>)"
proof -
  let ?h1 = "CreateSession g request (Caller k) h"
  have fl: "in_flight ?h1 = in_flight h @
       [ReportCreateSession
          (copy_session_info2create_req request (g (sid_id (req_sid request))))
          (sid_id (req_sid request)) (g (sid_id (req_sid request))) (make_cfg request)
          (Caller k)]"
    using assms by (rule create_session_issues_call)
  have "step g ?h1 (Complete (length (in_flight h)) status (CreateResp resp init_ok)) =
     create_session_callback (sid_id (req_sid request)) (g (sid_id (req_sid request)))
       (make_cfg request) (Caller k) status resp init_ok (?h1\<lparr>in_flight := in_flight h\<rparr>)"
    by (simp add: fl)
  then show ?thesis
    by (simp only: run_def foldl_Cons foldl_Nil step.simps)
qed

lemmas example_defs =
  example_handler_def LocalSessionManagerHandlerImpl_def empty_enforcer_def
  is_session_duplicate_def is_imsi_duplicate_def

subsection \<open>A duplicate create request\<close>

text \<open>
  C1: for a subscriber id that already has a live session, a \<open>CreateSession\<close> whose
  \<open>Config\<close> is identical to the session's creates no session and issues no billing
  create call. The claim also says that the caller is answered with success; the code
  returns at line 216 without invoking the response callback, so the state after the
  call is the state before it: no reply is recorded for the caller.
\<close>

theorem duplicate_create_session_no_reply:
  assumes "is_session_duplicate (sid_id (req_sid request)) (make_cfg request) (enforcer h)"
  shows "CreateSession g request (Caller k) h = h"
  using assms session_duplicate_imsi [OF assms]
  by (simp add: CreateSession_def Let_def)

text \<open>
  On an input: the same request sent twice, the first one created with success. There
  is one session and no call in flight, and the only reply is the one to the first
  caller.
\<close>

theorem duplicate_create_session_no_reply_witness:
  "CreateSession id example_request (Caller 2) example_handler = example_handler
   \<and> replies (CreateSession id example_request (Caller 2) example_handler) = []
   \<and> replies (run id (LocalSessionManagerHandlerImpl empty_enforcer)
        [RpcCreateSession example_request 1,
         Complete 0 Status_OK (CreateResp (CreateSessionResponse []) True),
         RpcCreateSession example_request 2]) = [(1, Status_OK)]
   \<and> length (session_map (enforcer (run id (LocalSessionManagerHandlerImpl empty_enforcer)
        [RpcCreateSession example_request 1,
         Complete 0 Status_OK (CreateResp (CreateSessionResponse []) True),
         RpcCreateSession example_request 2]))) = 1
   \<and> in_flight (run id (LocalSessionManagerHandlerImpl empty_enforcer)
        [RpcCreateSession example_request 1,
         Complete 0 Status_OK (CreateResp (CreateSessionResponse []) True),
         RpcCreateSession example_request 2]) = []"
proof -
  have "is_session_duplicate (sid_id (req_sid example_request)) (make_cfg example_request)
          (enforcer example_handler)"
    by (simp add: example_defs) (simp add: example_request_def)
  from duplicate_create_session_no_reply [OF this, of id 2]
  have once: "CreateSession id example_request (Caller 2) example_handler = example_handler"
    by simp
  have twice: "run id (LocalSessionManagerHandlerImpl empty_enforcer)
        [RpcCreateSession example_request 1,
         Complete 0 Status_OK (CreateResp (CreateSessionResponse []) True),
         RpcCreateSession example_request 2] =
      \<lparr>enforcer = empty_enforcer\<lparr>session_map :=
          [\<lparr>ss_imsi = ''IMSI001010000000001'',
            ss_session_id = ''IMSI001010000000001'',
            ss_cfg = make_cfg example_request\<rparr>]\<rparr>,
       current_epoch = 0, reported_epoch = 0, retry_timeout = 1,
       event_base = [], timers = [], in_flight = [], replies = [(1, Status_OK)]\<rparr>"
    by (simp add: run_def CreateSession_def Let_def send_create_session_def
        report_create_session_def example_defs remove_nth_def create_session_callback_def
        init_session_credit_def invoke_def)
       (simp add: example_request_def)
  show ?thesis
    unfolding twice using once by (simp add: example_defs)
qed

subsection \<open>Ending a session removes it locally\<close>

text \<open>
  C2: when \<open>EndSession\<close>'s closure runs for a subscriber that has a session, the session
  is gone from the table in the state that the closure leaves, in which the termination
  reports have only been issued; the caller is answered \<open>OK\<close>; and the completion of a
  termination report, with any status, changes nothing (its callback is the identity)
  but the list of the calls in flight. So after the request, the run of its closure and
  the completion of a termination report with whatever status, the subscriber has no
  session.
\<close>

theorem end_session_removes_locally:
  assumes "is_imsi_duplicate (sid_id request) (enforcer h)"
  shows "\<not> is_imsi_duplicate (sid_id request) (enforcer (run_task (EndSessionTask request cb) h))
    \<and> in_flight (run_task (EndSessionTask request cb) h) =
        in_flight h @ map ReportTerminateSession
          (map (\<lambda>s. \<lparr>term_sid = ss_imsi s, term_session_id = ss_session_id s\<rparr>)
             (filter (\<lambda>s. ss_imsi s = sid_id request) (session_map (enforcer h))))
    \<and> replies (run_task (EndSessionTask request (Caller k)) h) = replies h @ [(k, Status_OK)]
    \<and> report_termination_callback term_req status h' = h'
    \<and> (i < length (in_flight h') \<and> in_flight h' ! i = ReportTerminateSession term_req \<longrightarrow>
         step g h' (Complete i status TerminateResp) = h'\<lparr>in_flight := remove_nth i (in_flight h')\<rparr>)
    \<and> (event_base h = [] \<longrightarrow>
         \<not> is_imsi_duplicate (sid_id request)
             (enforcer (run g h [RpcEndSession request k, Run, Complete j status TerminateResp])))"
proof -
  have gone: "\<not> is_imsi_duplicate (sid_id request)
                 (enforcer (run_task (EndSessionTask request cb) h))"
    using assms
    by (simp add: end_session_task_def terminate_subscriber_def not_duplicate_after_filter)
  have sent: "in_flight (run_task (EndSessionTask request cb) h) =
        in_flight h @ map ReportTerminateSession
          (map (\<lambda>s. \<lparr>term_sid = ss_imsi s, term_session_id = ss_session_id s\<rparr>)
             (filter (\<lambda>s. ss_imsi s = sid_id request) (session_map (enforcer h))))"
    using assms by (simp add: end_session_task_def terminate_subscriber_def)
  have answered: "replies (run_task (EndSessionTask request (Caller k)) h) =
        replies h @ [(k, Status_OK)]"
    using assms by (simp add: end_session_task_def terminate_subscriber_def)
  have logs: "report_termination_callback term_req status h' = h'"
    by (simp add: report_termination_callback_def)
  have whole: "\<not> is_imsi_duplicate (sid_id request)
      (enforcer (run g h [RpcEndSession request k, Run, Complete j status TerminateResp]))"
    if "event_base h = []"
  proof -
    have "step g (step g h (RpcEndSession request k)) Run =
        run_task (EndSessionTask request (Caller k)) (h\<lparr>event_base := []\<rparr>)"
      using that by (simp add: EndSession_def runInEventBaseThread_def)
    then have eq: "run g h [RpcEndSession request k, Run, Complete j status TerminateResp] =
        step g (run_task (EndSessionTask request (Caller k)) (h\<lparr>event_base := []\<rparr>))
          (Complete j status TerminateResp)"
      by (simp only: run_def foldl_Cons foldl_Nil)
    have ne: "\<not> is_imsi_duplicate (sid_id request)
        (enforcer (run_task (EndSessionTask request (Caller k)) (h\<lparr>event_base := []\<rparr>)))"
      using assms
      by (simp add: end_session_task_def terminate_subscriber_def not_duplicate_after_filter)
    show ?thesis
      unfolding eq enforcer_complete_terminate by (rule ne)
  qed
  show ?thesis
    using gone sent answered logs complete_terminate_report [of i h' term_req g status] whole
    by blast
qed

theorem end_session_removes_locally_witness:
  "\<not> is_imsi_duplicate ''IMSI001010000000001''
       (enforcer (run_task (EndSessionTask \<lparr>sid_id = ''IMSI001010000000001''\<rparr> (Caller 1))
          example_handler))
   \<and> in_flight (run_task (EndSessionTask \<lparr>sid_id = ''IMSI001010000000001''\<rparr> (Caller 1))
          example_handler) =
        [ReportTerminateSession \<lparr>term_sid = ''IMSI001010000000001'',
                                  term_session_id = ''IMSI001010000000001-1''\<rparr>]
   \<and> session_map (enforcer (run id example_handler
         [RpcEndSession \<lparr>sid_id = ''IMSI001010000000001''\<rparr> 1, Run,
          Complete 0 unavailable TerminateResp])) = []"
proof -
  have dup: "is_imsi_duplicate (sid_id \<lparr>sid_id = ''IMSI001010000000001''\<rparr>)
      (enforcer example_handler)"
    by (simp add: example_defs)
  have later: "session_map (enforcer (run id example_handler
         [RpcEndSession \<lparr>sid_id = ''IMSI001010000000001''\<rparr> 1, Run,
          Complete 0 unavailable TerminateResp])) = []"
    by (simp add: run_def example_defs EndSession_def runInEventBaseThread_def
        end_session_task_def terminate_subscriber_def report_termination_def
        report_terminate_session_def invoke_def remove_nth_def
        report_termination_callback_def)
  from end_session_removes_locally [OF dup, where cb = "Caller 1" and k = 1]
  show ?thesis using later by (simp add: example_defs)
qed

subsection \<open>A failed usage report\<close>

text \<open>
  C3: when a report call in flight completes with a status that is not \<open>OK\<close>, the
  pending state afterwards is the snapshot of that call followed by what has become
  pending since (each update once), no acknowledgement is applied, the call is no longer
  in flight and no other call, closure or timer is issued; the next snapshot pulled is
  the whole accumulated total.
\<close>

theorem failed_report_rolls_back:
  assumes "i < length (in_flight h)"
      and "in_flight h ! i = ReportUpdates request"
      and "\<not> ok status"
  shows "pending_updates (enforcer (step g h (Complete i status (UpdateResp resp)))) =
           updates request @ pending_updates (enforcer h)
    \<and> pending_monitors (enforcer (step g h (Complete i status (UpdateResp resp)))) =
           usage_monitors request @ pending_monitors (enforcer h)
    \<and> applied_responses (enforcer (step g h (Complete i status (UpdateResp resp)))) =
           applied_responses (enforcer h)
    \<and> in_flight (step g h (Complete i status (UpdateResp resp))) = remove_nth i (in_flight h)
    \<and> Suc (reports_in_flight (step g h (Complete i status (UpdateResp resp)))) =
           reports_in_flight h
    \<and> event_base (step g h (Complete i status (UpdateResp resp))) = event_base h
    \<and> timers (step g h (Complete i status (UpdateResp resp))) = timers h
    \<and> fst (collect_updates (enforcer (step g h (Complete i status (UpdateResp resp))))) =
           \<lparr>updates = updates request @ pending_updates (enforcer h),
            usage_monitors = usage_monitors request @ pending_monitors (enforcer h)\<rparr>"
proof -
  have st: "step g h (Complete i status (UpdateResp resp)) =
      h\<lparr>in_flight := remove_nth i (in_flight h),
        enforcer := reset_updates request (enforcer h)\<rparr>"
    using assms by (simp add: report_updates_callback_def)
  have n: "Suc (length (filter is_report (remove_nth i (in_flight h)))) =
      length (filter is_report (in_flight h))"
    using assms by (intro reports_in_flight_remove_nth) simp_all
  show ?thesis
    unfolding st using n
    by (simp add: reset_updates_def collect_updates_def reports_in_flight_def)
qed

theorem failed_report_rolls_back_witness:
  "in_flight reporting_handler =
     [ReportUpdates \<lparr>updates = [CreditUsageUpdate ''IMSI001010000000001'' 1024],
                     usage_monitors = []\<rparr>]
   \<and> pending_updates (enforcer reporting_handler) = []
   \<and> pending_updates (enforcer (step id reporting_handler
         (Complete 0 unavailable (UpdateResp (UpdateSessionResponse []))))) =
       [CreditUsageUpdate ''IMSI001010000000001'' 1024]
   \<and> in_flight (step id reporting_handler
         (Complete 0 unavailable (UpdateResp (UpdateSessionResponse [])))) = []"
proof -
  have fl: "in_flight reporting_handler =
     [ReportUpdates \<lparr>updates = [CreditUsageUpdate ''IMSI001010000000001'' 1024],
                     usage_monitors = []\<rparr>]"
    and pe: "pending_updates (enforcer reporting_handler) = []"
    by (simp_all add: reporting_handler_def check_usage_for_reporting_def collect_updates_def
        aggregate_records_def usage_table_def example_defs report_updates_def
        updates_size_def usage_monitors_size_def)
  have a: "0 < length (in_flight reporting_handler)"
    and b: "in_flight reporting_handler ! 0 =
       ReportUpdates \<lparr>updates = [CreditUsageUpdate ''IMSI001010000000001'' 1024],
                      usage_monitors = []\<rparr>"
    and c: "\<not> ok unavailable"
    by (simp_all add: fl ok_def unavailable_def)
  from failed_report_rolls_back [OF a b c, of id "UpdateSessionResponse []"]
  show ?thesis using fl pe by (simp add: remove_nth_def)
qed

subsection \<open>Report calls in flight\<close>




subsection \<open>The epoch of a rule statistics report\<close>

text \<open>
  C5: when \<open>current_epoch\<close> is 0 or differs from the epoch of an arriving rule statistics
  report, \<open>ReportRuleStats\<close> queues exactly one dataplane setup closure for that epoch
  (behind the aggregation closure) and sets \<open>current_epoch\<close> to it at once, while no call
  has been issued yet; the closure, once run, issues one setup call for the epoch; and a
  second report with the same nonzero epoch queues no further setup.
\<close>

theorem epoch_resync_trigger:
  assumes "current_epoch h = 0 \<or> current_epoch h \<noteq> epoch request"
  shows "current_epoch (ReportRuleStats request cb h) = epoch request
    \<and> reported_epoch (ReportRuleStats request cb h) = epoch request
    \<and> event_base (ReportRuleStats request cb h) =
          event_base h @ [AggregateTask request, SetupTask (epoch request)]
    \<and> in_flight (ReportRuleStats request cb h) = in_flight h
    \<and> timers (ReportRuleStats request cb h) = timers h
    \<and> (epoch request \<noteq> 0 \<longrightarrow>
          event_base (ReportRuleStats request cb' (ReportRuleStats request cb h)) =
            event_base h @ [AggregateTask request, SetupTask (epoch request), AggregateTask request])
    \<and> run_task (SetupTask (epoch request)) h' =
          h'\<lparr>in_flight := in_flight h' @ [SetupCall (epoch request)]\<rparr>"
proof -
  have cur: "current_epoch (ReportRuleStats request cb h) = epoch request"
    using assms by (auto simp: ReportRuleStats_defs)
  have rep: "reported_epoch (ReportRuleStats request cb h) = epoch request"
    by (simp add: ReportRuleStats_defs)
  have queued: "event_base (ReportRuleStats request cb h) =
      event_base h @ [AggregateTask request, SetupTask (epoch request)]"
    using assms by (auto simp: ReportRuleStats_defs)
  have calls: "in_flight (ReportRuleStats request cb h) = in_flight h"
    by (simp add: ReportRuleStats_defs)
  have tim: "timers (ReportRuleStats request cb h) = timers h"
    by (simp add: ReportRuleStats_defs)
  have again: "event_base (ReportRuleStats request cb' h2) =
      event_base h2 @ [AggregateTask request]"
    if "current_epoch h2 = epoch request" "epoch request \<noteq> 0" for h2
    using that by (simp add: ReportRuleStats_defs)
  have task: "run_task (SetupTask (epoch request)) h' =
      h'\<lparr>in_flight := in_flight h' @ [SetupCall (epoch request)]\<rparr>"
    by (simp add: enforcer_setup_def)
  show ?thesis
    using cur rep queued calls tim task again [OF cur] by simp
qed

theorem epoch_resync_trigger_witness:
  "current_epoch (ReportRuleStats usage_table (Caller 1)
      (LocalSessionManagerHandlerImpl empty_enforcer)) = 7
   \<and> event_base (ReportRuleStats usage_table (Caller 1)
      (LocalSessionManagerHandlerImpl empty_enforcer)) =
        [AggregateTask usage_table, SetupTask 7]
   \<and> event_base (ReportRuleStats usage_table (Caller 2)
        (ReportRuleStats usage_table (Caller 1)
          (LocalSessionManagerHandlerImpl empty_enforcer))) =
        [AggregateTask usage_table, SetupTask 7, AggregateTask usage_table]"
proof -
  have z: "current_epoch (LocalSessionManagerHandlerImpl empty_enforcer) = 0
      \<or> current_epoch (LocalSessionManagerHandlerImpl empty_enforcer) \<noteq> epoch usage_table"
    by (simp add: LocalSessionManagerHandlerImpl_def)
  have e: "epoch usage_table = 7"
    by (simp add: usage_table_def)
  from epoch_resync_trigger [OF z, of "Caller 1" "Caller 2"]
  show ?thesis by (simp add: e) (simp add: LocalSessionManagerHandlerImpl_def)
qed

subsection \<open>Failures of session creation\<close>

text \<open>
  C6, as amended: for a \<open>CreateSession\<close> request that is not an identical duplicate,
  followed by the completion of its billing create call. The table changes only when
  the billing status is \<open>OK\<close> and the initialisation succeeds, and \<open>CreateSession\<close>
  itself touches neither the enforcer nor the replies. When the billing call fails, the
  enforcer is unchanged and the caller receives the billing status as it is; when the
  initialisation fails, the enforcer is unchanged and the caller receives
  \<open>init_failure\<close>, which is not \<open>OK\<close>. The caller can tell the two failures apart exactly
  when the billing status is not \<open>init_failure\<close> itself.
\<close>

theorem create_session_failures:
  assumes "\<not> is_session_duplicate (sid_id (req_sid request)) (make_cfg request) (enforcer h)"
  shows
   "(\<not> ok status \<longrightarrow>
       replies (run g h [RpcCreateSession request k,
          Complete (length (in_flight h)) status (CreateResp resp init_ok)]) =
         replies h @ [(k, status)]
     \<and> enforcer (run g h [RpcCreateSession request k,
          Complete (length (in_flight h)) status (CreateResp resp init_ok)]) = enforcer h)
    \<and> (ok status \<and> \<not> init_ok \<longrightarrow>
       replies (run g h [RpcCreateSession request k,
          Complete (length (in_flight h)) status (CreateResp resp init_ok)]) =
         replies h @ [(k, init_failure)]
     \<and> enforcer (run g h [RpcCreateSession request k,
          Complete (length (in_flight h)) status (CreateResp resp init_ok)]) = enforcer h)
    \<and> (ok status \<and> init_ok \<longrightarrow>
       replies (run g h [RpcCreateSession request k,
          Complete (length (in_flight h)) status (CreateResp resp init_ok)]) =
         replies h @ [(k, status)]
     \<and> session_map (enforcer (run g h [RpcCreateSession request k,
          Complete (length (in_flight h)) status (CreateResp resp init_ok)])) =
         session_map (enforcer h) @
           [\<lparr>ss_imsi = sid_id (req_sid request),
             ss_session_id = g (sid_id (req_sid request)),
             ss_cfg = make_cfg request\<rparr>])
    \<and> (session_map (enforcer (run g h [RpcCreateSession request k,
          Complete (length (in_flight h)) status (CreateResp resp init_ok)]))
         \<noteq> session_map (enforcer h) \<longrightarrow> ok status \<and> init_ok)
    \<and> \<not> ok init_failure
    \<and> (\<not> ok status \<and> ok status' \<longrightarrow>
         (replies (run g h [RpcCreateSession request k,
            Complete (length (in_flight h)) status (CreateResp resp init_ok)]) =
          replies (run g h [RpcCreateSession request k,
            Complete (length (in_flight h)) status' (CreateResp resp' False)]))
         = (status = init_failure))
    \<and> enforcer (CreateSession g request (Caller k) h) = enforcer h
    \<and> replies (CreateSession g request (Caller k) h) = replies h"
proof -
  note r = create_session_run [OF assms]
  note keep = create_session_keeps(1) [of g request "Caller k" h]
    create_session_keeps(2) [OF assms, of g "Caller k"]
  have rep: "replies (run g h [RpcCreateSession request k,
          Complete (length (in_flight h)) st (CreateResp rs io)]) =
      replies h @ [(k, if ok st \<and> \<not> io then init_failure else st)]" for st rs io
    unfolding r by (simp add: create_session_callback_fields(1) keep)
  have sm: "session_map (enforcer (run g h [RpcCreateSession request k,
          Complete (length (in_flight h)) st (CreateResp rs io)])) =
      (if ok st \<and> io
       then session_map (enforcer h) @
           [\<lparr>ss_imsi = sid_id (req_sid request),
             ss_session_id = g (sid_id (req_sid request)),
             ss_cfg = make_cfg request\<rparr>]
       else session_map (enforcer h))" for st rs io
    unfolding r by (simp add: create_session_callback_fields(2) keep)
  have en: "enforcer (run g h [RpcCreateSession request k,
          Complete (length (in_flight h)) st (CreateResp rs io)]) = enforcer h"
    if "\<not> (ok st \<and> io)" for st rs io
    unfolding r using that by (simp add: create_session_callback_fields(3) keep)
  have nok: "\<not> ok init_failure"
    by (simp add: ok_def init_failure_def)
  show ?thesis
    using nok keep by (auto simp: rep sm en)
qed

text \<open>
  C6 as stated fails: a billing call that fails with \<open>FAILED_PRECONDITION\<close> and the
  message of the initialisation failure leaves the same state, with the same reply to
  the caller, as a billing call that succeeds followed by a failed initialisation.
\<close>

theorem billing_failure_answered_as_init_failure:
  "\<not> ok \<lparr>error_code = FAILED_PRECONDITION, error_message = ''Failed to initialize session''\<rparr>
   \<and> run id (LocalSessionManagerHandlerImpl empty_enforcer)
        [RpcCreateSession example_request 1,
         Complete 0
           \<lparr>error_code = FAILED_PRECONDITION, error_message = ''Failed to initialize session''\<rparr>
           (CreateResp (CreateSessionResponse []) True)] =
       run id (LocalSessionManagerHandlerImpl empty_enforcer)
        [RpcCreateSession example_request 1,
         Complete 0 Status_OK (CreateResp (CreateSessionResponse []) False)]
   \<and> replies (run id (LocalSessionManagerHandlerImpl empty_enforcer)
        [RpcCreateSession example_request 1,
         Complete 0 Status_OK (CreateResp (CreateSessionResponse []) False)]) =
       [(1, \<lparr>error_code = FAILED_PRECONDITION,
              error_message = ''Failed to initialize session''\<rparr>)]"
  by (simp add: run_def CreateSession_def Let_def send_create_session_def
      report_create_session_def example_defs remove_nth_def create_session_callback_def
      init_session_credit_def invoke_def ok_def Status_OK_def)

theorem create_session_failures_witness:
  "replies (run id (LocalSessionManagerHandlerImpl empty_enforcer)
      [RpcCreateSession example_request 1,
       Complete 0 unavailable (CreateResp (CreateSessionResponse []) True)]) =
     [(1, unavailable)]
   \<and> replies (run id (LocalSessionManagerHandlerImpl empty_enforcer)
      [RpcCreateSession example_request 1,
       Complete 0 Status_OK (CreateResp (CreateSessionResponse []) False)]) =
     [(1, init_failure)]
   \<and> unavailable \<noteq> init_failure
   \<and> session_map (enforcer (run id (LocalSessionManagerHandlerImpl empty_enforcer)
      [RpcCreateSession example_request 1,
       Complete 0 unavailable (CreateResp (CreateSessionResponse []) True)])) = []
   \<and> session_map (enforcer (run id (LocalSessionManagerHandlerImpl empty_enforcer)
      [RpcCreateSession example_request 1,
       Complete 0 Status_OK (CreateResp (CreateSessionResponse []) False)])) = []"
proof -
  let ?h = "LocalSessionManagerHandlerImpl empty_enforcer"
  have fresh: "\<not> is_session_duplicate (sid_id (req_sid example_request))
      (make_cfg example_request) (enforcer ?h)"
    by (simp add: example_defs)
  have a: "\<not> ok unavailable" and b: "ok Status_OK" and c: "unavailable \<noteq> init_failure"
    by (simp_all add: ok_def unavailable_def Status_OK_def init_failure_def)
  have z: "length (in_flight ?h) = 0" "replies ?h = []" "session_map (enforcer ?h) = []"
    by (simp_all add: LocalSessionManagerHandlerImpl_def empty_enforcer_def)
  from create_session_failures
      [OF fresh, where g = id and k = 1 and status = unavailable and init_ok = True
         and resp = "CreateSessionResponse []"]
    create_session_failures
      [OF fresh, where g = id and k = 1 and status = Status_OK and init_ok = False
         and resp = "CreateSessionResponse []"]
  show ?thesis using a b c by (simp add: z)
qed

subsection \<open>Draining the pending updates\<close>

text \<open>
  C7: a successful completion applies the acknowledgement and runs
  \<open>check_usage_for_reporting\<close> again, which issues a call unless both sets of the
  snapshot are empty. Hence, with updates pending and no report call in flight, a round
  that is joined mid-flight by one more nonempty batch issues two report calls, and when
  all calls have completed with success nothing is pending and none is in flight. The
  batch arrives through the closure of \<open>ReportRuleStats\<close>, which issues the second call
  at once; were it only aggregated, the completion of the first call would issue it.
\<close>

theorem usage_loop_drains:
  assumes "reports_in_flight h = 0"
      and "\<not> no_pending (enforcer h)"
      and "concat (map charging_usage (records tbl)) \<noteq> []
           \<or> concat (map monitor_usage (records tbl)) \<noteq> []"
  shows "reports_in_flight (check_usage_for_reporting h) = 1
    \<and> reports_in_flight (run_task (AggregateTask tbl) (check_usage_for_reporting h)) = 2
    \<and> length (fst (drain ack (run_task (AggregateTask tbl) (check_usage_for_reporting h)))) = 2
    \<and> no_pending (enforcer (snd (drain ack
          (run_task (AggregateTask tbl) (check_usage_for_reporting h)))))
    \<and> reports_in_flight (snd (drain ack
          (run_task (AggregateTask tbl) (check_usage_for_reporting h)))) = 0
    \<and> length (fst (drain ack ((check_usage_for_reporting h)
          \<lparr>enforcer := aggregate_records tbl (enforcer (check_usage_for_reporting h))\<rparr>))) = 2
    \<and> no_pending (enforcer (snd (drain ack ((check_usage_for_reporting h)
          \<lparr>enforcer := aggregate_records tbl (enforcer (check_usage_for_reporting h))\<rparr>))))
    \<and> (ok status \<longrightarrow>
          report_updates_callback request status resp h' =
            check_usage_for_reporting
              (h'\<lparr>enforcer := update_session_credit resp (enforcer h')\<rparr>))
    \<and> in_flight (check_usage_for_reporting h') =
          (if updates_size (fst (collect_updates (enforcer h'))) = 0
              \<and> usage_monitors_size (fst (collect_updates (enforcer h'))) = 0
           then in_flight h'
           else in_flight h' @ [ReportUpdates (fst (collect_updates (enforcer h')))])"
proof -
  define h1 where "h1 = check_usage_for_reporting h"
  define h2 where "h2 = run_task (AggregateTask tbl) h1"
  have r1: "reports_in_flight h1 = 1"
    using assms(1,2) by (simp add: h1_def reports_in_flight_check)
  have p1: "no_pending (enforcer h1)"
    by (simp add: h1_def no_pending_check)
  have r2: "reports_in_flight h2 = 2"
    using r1 assms(3) by (auto simp: h2_def reports_in_flight_check no_pending_aggregate)
  have p2: "no_pending (enforcer h2)"
    by (simp add: h2_def no_pending_check)
  have d: "reports_in_flight (snd (drain ack h2)) = 0
      \<and> no_pending (enforcer (snd (drain ack h2)))
      \<and> length (fst (drain ack h2)) = 2"
    using drain_result [of ack h2] r2 p2 by simp
  define h3 where "h3 = h1\<lparr>enforcer := aggregate_records tbl (enforcer h1)\<rparr>"
  have r3: "reports_in_flight h3 = 1"
    using r1 by (simp add: h3_def)
  have p3: "\<not> no_pending (enforcer h3)"
    using assms(3) by (auto simp: h3_def no_pending_aggregate)
  have d3: "no_pending (enforcer (snd (drain ack h3))) \<and> length (fst (drain ack h3)) = 2"
    using drain_result [of ack h3] r3 p3 by simp
  show ?thesis
    using r1 r2 d d3 report_updates_callback_ok [of status request resp h']
      check_issues_call [of h']
    unfolding h3_def h2_def h1_def by simp
qed

theorem usage_loop_drains_witness:
  "length (fst (drain ack_all (run_task (AggregateTask usage_table)
      (check_usage_for_reporting
         (LocalSessionManagerHandlerImpl (aggregate_records usage_table empty_enforcer)))))) = 2
   \<and> no_pending (enforcer (snd (drain ack_all (run_task (AggregateTask usage_table)
      (check_usage_for_reporting
         (LocalSessionManagerHandlerImpl (aggregate_records usage_table empty_enforcer)))))))"
  using usage_loop_drains
    [of "LocalSessionManagerHandlerImpl (aggregate_records usage_table empty_enforcer)"
        usage_table ack_all Status_OK]
  by (simp add: LocalSessionManagerHandlerImpl_def aggregate_records_def empty_enforcer_def
      usage_table_def reports_in_flight_def no_pending_def)

subsection \<open>A create request that conflicts with a live session\<close>

text \<open>
  C8: for a subscriber id with a live session whose \<open>Config\<close> differs from the new one,
  \<open>CreateSession\<close> queues the termination of the old session (with a callback that
  drops the answer) and issues the billing create call for the new \<open>Config\<close> in the same
  step, answering nobody yet. When the queued termination has run and the create call
  has completed with success, the table holds the new session in place of the old one
  while the termination report is still in flight.
\<close>

theorem conflicting_create_replaces:
  assumes "is_imsi_duplicate (sid_id (req_sid request)) (enforcer h)"
      and "\<not> is_session_duplicate (sid_id (req_sid request)) (make_cfg request) (enforcer h)"
  shows "event_base (CreateSession g request cb h) =
           event_base h @ [EndSessionTask (req_sid request) Discard]
    \<and> in_flight (CreateSession g request cb h) =
         in_flight h @
          [ReportCreateSession
             (copy_session_info2create_req request (g (sid_id (req_sid request))))
             (sid_id (req_sid request)) (g (sid_id (req_sid request)))
             (make_cfg request) cb]
    \<and> enforcer (CreateSession g request cb h) = enforcer h
    \<and> replies (CreateSession g request cb h) = replies h
    \<and> (event_base h = [] \<and> ok status \<longrightarrow>
         session_map (enforcer
           (run g (CreateSession g request cb h)
              [Run, Complete (length (in_flight h)) status (CreateResp resp True)])) =
           filter (\<lambda>s. ss_imsi s \<noteq> sid_id (req_sid request)) (session_map (enforcer h)) @
             [\<lparr>ss_imsi = sid_id (req_sid request),
               ss_session_id = g (sid_id (req_sid request)),
               ss_cfg = make_cfg request\<rparr>]
       \<and> in_flight
           (run g (CreateSession g request cb h)
              [Run, Complete (length (in_flight h)) status (CreateResp resp True)]) =
           in_flight h @ map ReportTerminateSession
             (map (\<lambda>s. \<lparr>term_sid = ss_imsi s, term_session_id = ss_session_id s\<rparr>)
                (filter (\<lambda>s. ss_imsi s = sid_id (req_sid request)) (session_map (enforcer h)))))"
proof -
  let ?imsi = "sid_id (req_sid request)"
  let ?call = "ReportCreateSession (copy_session_info2create_req request (g ?imsi))
                 ?imsi (g ?imsi) (make_cfg request) cb"
  let ?terms = "map ReportTerminateSession
             (map (\<lambda>s. \<lparr>term_sid = ss_imsi s, term_session_id = ss_session_id s\<rparr>)
                (filter (\<lambda>s. ss_imsi s = ?imsi) (session_map (enforcer h))))"
  have ev: "event_base (CreateSession g request cb h) =
      event_base h @ [EndSessionTask (req_sid request) Discard]"
    using assms
    by (simp add: CreateSession_def Let_def send_create_session_def report_create_session_def
        EndSession_def runInEventBaseThread_def)
  have fl: "in_flight (CreateSession g request cb h) = in_flight h @ [?call]"
    using assms
    by (simp add: CreateSession_def Let_def send_create_session_def report_create_session_def
        EndSession_def runInEventBaseThread_def)
  have en: "enforcer (CreateSession g request cb h) = enforcer h"
    by (simp add: CreateSession_def Let_def send_create_session_def report_create_session_def
        EndSession_def runInEventBaseThread_def)
  have re: "replies (CreateSession g request cb h) = replies h"
    using assms
    by (simp add: CreateSession_def Let_def send_create_session_def report_create_session_def
        EndSession_def runInEventBaseThread_def)
  have later: "session_map (enforcer
           (run g (CreateSession g request cb h)
              [Run, Complete (length (in_flight h)) status (CreateResp resp True)])) =
           filter (\<lambda>s. ss_imsi s \<noteq> ?imsi) (session_map (enforcer h)) @
             [\<lparr>ss_imsi = ?imsi, ss_session_id = g ?imsi, ss_cfg = make_cfg request\<rparr>]
       \<and> in_flight
           (run g (CreateSession g request cb h)
              [Run, Complete (length (in_flight h)) status (CreateResp resp True)]) =
           in_flight h @ ?terms"
    if "event_base h = []" "ok status"
  proof -
    define h1 where "h1 = (CreateSession g request cb h)\<lparr>event_base := []\<rparr>"
    define h2 where "h2 = end_session_task (req_sid request) Discard h1"
    have dup1: "is_imsi_duplicate (sid_id (req_sid request)) (enforcer h1)"
      using assms(1) by (simp add: h1_def en)
    have run1: "step g (CreateSession g request cb h) Run = h2"
      using that(1) by (simp add: ev h2_def h1_def)
    have fl2: "in_flight h2 = in_flight h @ ?call # ?terms"
      using in_flight_end_session_task [OF dup1, of Discard] by (simp add: h2_def h1_def fl en)
    have sm2: "session_map (enforcer h2) =
        filter (\<lambda>s. ss_imsi s \<noteq> ?imsi) (session_map (enforcer h))"
      using session_map_end_session_task [OF dup1, of Discard] by (simp add: h2_def h1_def en)
    have at: "in_flight h2 ! length (in_flight h) = ?call"
      by (simp add: fl2)
    have lt: "length (in_flight h) < length (in_flight h2)"
      by (simp add: fl2)
    have run2: "step g h2 (Complete (length (in_flight h)) status (CreateResp resp True)) =
        create_session_callback ?imsi (g ?imsi) (make_cfg request) cb status resp True
          (h2\<lparr>in_flight := in_flight h @ ?terms\<rparr>)"
      using lt at by (simp add: fl2)
    have both: "run g (CreateSession g request cb h)
          [Run, Complete (length (in_flight h)) status (CreateResp resp True)] =
        create_session_callback ?imsi (g ?imsi) (make_cfg request) cb status resp True
          (h2\<lparr>in_flight := in_flight h @ ?terms\<rparr>)"
      by (simp only: run_def foldl_Cons foldl_Nil run1 run2)
    show ?thesis
      unfolding both using that(2)
      by (simp add: create_session_callback_def init_session_credit_def sm2)
  qed
  show ?thesis
    using ev fl en re later by blast
qed

theorem conflicting_create_replaces_witness:
  "event_base (CreateSession id (example_request\<lparr>req_apn := ''other.apn''\<rparr>) (Caller 2)
      example_handler) = [EndSessionTask \<lparr>sid_id = ''IMSI001010000000001''\<rparr> Discard]
   \<and> map ss_cfg (session_map (enforcer
        (run id (CreateSession id (example_request\<lparr>req_apn := ''other.apn''\<rparr>) (Caller 2)
                   example_handler)
           [Run, Complete 0 Status_OK (CreateResp (CreateSessionResponse []) True)]))) =
       [make_cfg (example_request\<lparr>req_apn := ''other.apn''\<rparr>)]
   \<and> in_flight
        (run id (CreateSession id (example_request\<lparr>req_apn := ''other.apn''\<rparr>) (Caller 2)
                   example_handler)
           [Run, Complete 0 Status_OK (CreateResp (CreateSessionResponse []) True)]) =
       [ReportTerminateSession \<lparr>term_sid = ''IMSI001010000000001'',
                                 term_session_id = ''IMSI001010000000001-1''\<rparr>]"
proof -
  let ?req = "example_request\<lparr>req_apn := ''other.apn''\<rparr>"
  have sid: "sid_id (req_sid example_request) = ''IMSI001010000000001''"
    by (simp add: example_request_def)
  have apn: "apn (make_cfg ?req) \<noteq> apn (make_cfg example_request)"
    by (simp add: make_cfg_def example_request_def Let_def)
  then have ne: "make_cfg example_request \<noteq> make_cfg ?req"
    by metis
  have a: "is_imsi_duplicate (sid_id (req_sid ?req)) (enforcer example_handler)"
    by (simp add: sid example_defs)
  have b: "\<not> is_session_duplicate (sid_id (req_sid ?req)) (make_cfg ?req)
      (enforcer example_handler)"
    using ne by (simp add: sid example_defs)
  from conflicting_create_replaces
    [OF a b, where g = id and cb = "Caller 2" and status = Status_OK
       and resp = "CreateSessionResponse []"]
  show ?thesis by (simp add: sid example_defs)
qed

subsection \<open>Completion of a dataplane setup call\<close>

text \<open>
  C9: on completion of a setup call for epoch \<open>e\<close>: with a status that is not \<open>OK\<close> the
  retry closure for \<open>e\<close> is queued (once, or twice when the response also carries
  \<open>FAILURE\<close>); with status \<open>OK\<close>, \<open>OUTDATED_EPOCH\<close> and \<open>SUCCESS\<close> change nothing and
  \<open>FAILURE\<close> queues the retry closure once. The retry closure schedules a timer with
  \<open>retry_timeout\<close>, which is 1 from the constructor on and which no event changes, and
  the timer issues the setup call for the same epoch.
\<close>

theorem setup_callback_cases:
  "(\<not> ok status \<longrightarrow>
      handle_setup_callback e status resp h =
        h\<lparr>event_base := event_base h @
              replicate (if result resp = FAILURE then 2 else 1) (RetryTask e)\<rparr>)
   \<and> (ok status \<and> result resp = OUTDATED_EPOCH \<longrightarrow> handle_setup_callback e status resp h = h)
   \<and> (ok status \<and> result resp = FAILURE \<longrightarrow>
        handle_setup_callback e status resp h = h\<lparr>event_base := event_base h @ [RetryTask e]\<rparr>)
   \<and> (ok status \<and> result resp = SUCCESS \<longrightarrow> handle_setup_callback e status resp h = h)
   \<and> run_task (RetryTask e) h = h\<lparr>timers := timers h @ [(retry_timeout h, e)]\<rparr>
   \<and> (i < length (timers h) \<and> timers h ! i = (d, e) \<longrightarrow>
        step g h (Fire i) =
          h\<lparr>timers := remove_nth i (timers h), in_flight := in_flight h @ [SetupCall e]\<rparr>)
   \<and> retry_timeout (LocalSessionManagerHandlerImpl enf) = 1
   \<and> retry_timeout (step g h ev) = retry_timeout h"
proof -
  have failed: "handle_setup_callback e status resp h =
      h\<lparr>event_base := event_base h @
            replicate (if result resp = FAILURE then 2 else 1) (RetryTask e)\<rparr>"
    if "\<not> ok status"
    using that
    by (cases "result resp")
       (simp_all add: handle_setup_callback_def runInEventBaseThread_def Let_def
          numeral_2_eq_2)
  have answered: "handle_setup_callback e status resp h =
      (if result resp = FAILURE then h\<lparr>event_base := event_base h @ [RetryTask e]\<rparr> else h)"
    if "ok status"
    using that
    by (cases "result resp")
       (simp_all add: handle_setup_callback_def runInEventBaseThread_def Let_def)
  have fire: "step g h (Fire i) =
      h\<lparr>timers := remove_nth i (timers h), in_flight := in_flight h @ [SetupCall e]\<rparr>"
    if "i < length (timers h)" "timers h ! i = (d, e)"
    using that by (simp add: enforcer_setup_def)
  have ctor: "retry_timeout (LocalSessionManagerHandlerImpl enf) = 1"
    by (simp add: LocalSessionManagerHandlerImpl_def)
  show ?thesis
    using failed answered fire ctor retry_timeout_step [of g h ev] by simp
qed

theorem setup_callback_cases_witness:
  "event_base (handle_setup_callback 7 unavailable \<lparr>result = SUCCESS\<rparr>
      (LocalSessionManagerHandlerImpl empty_enforcer)) = [RetryTask 7]
   \<and> event_base (handle_setup_callback 7 Status_OK \<lparr>result = OUTDATED_EPOCH\<rparr>
      (LocalSessionManagerHandlerImpl empty_enforcer)) = []
   \<and> event_base (handle_setup_callback 7 Status_OK \<lparr>result = FAILURE\<rparr>
      (LocalSessionManagerHandlerImpl empty_enforcer)) = [RetryTask 7]
   \<and> event_base (handle_setup_callback 7 Status_OK \<lparr>result = SUCCESS\<rparr>
      (LocalSessionManagerHandlerImpl empty_enforcer)) = []
   \<and> in_flight (run id (LocalSessionManagerHandlerImpl empty_enforcer)
        [RpcReportRuleStats usage_table 1, Run, Run,
         Complete 1 unavailable (SetupResp \<lparr>result = SUCCESS\<rparr>), Run, Fire 0]) =
       [ReportUpdates \<lparr>updates = [CreditUsageUpdate ''IMSI001010000000001'' 1024],
                       usage_monitors = []\<rparr>, SetupCall 7]"
proof -
  let ?h = "LocalSessionManagerHandlerImpl empty_enforcer"
  have a: "\<not> ok unavailable" and b: "ok Status_OK"
    by (simp_all add: ok_def unavailable_def Status_OK_def)
  have full: "in_flight (run id ?h
        [RpcReportRuleStats usage_table 1, Run, Run,
         Complete 1 unavailable (SetupResp \<lparr>result = SUCCESS\<rparr>), Run, Fire 0]) =
       [ReportUpdates \<lparr>updates = [CreditUsageUpdate ''IMSI001010000000001'' 1024],
                       usage_monitors = []\<rparr>, SetupCall 7]"
    by (simp add: run_def LocalSessionManagerHandlerImpl_def empty_enforcer_def usage_table_def
      ReportRuleStats_defs invoke_def check_usage_for_reporting_def collect_updates_def
      aggregate_records_def report_updates_def updates_size_def usage_monitors_size_def
      enforcer_setup_def Status_OK_def handle_setup_callback_def remove_nth_def ok_def
      unavailable_def)
  from setup_callback_cases [of unavailable 7 "\<lparr>result = SUCCESS\<rparr>" ?h]
    setup_callback_cases [of Status_OK 7 "\<lparr>result = OUTDATED_EPOCH\<rparr>" ?h]
    setup_callback_cases [of Status_OK 7 "\<lparr>result = FAILURE\<rparr>" ?h]
    setup_callback_cases [of Status_OK 7 "\<lparr>result = SUCCESS\<rparr>" ?h]
  show ?thesis using a b full by (simp add: LocalSessionManagerHandlerImpl_def)
qed

subsection \<open>The hardware address as a string\<close>
















end
